theory Spec2Isabelle
  imports Complex_Main
begin

section \<open>Numbers, vectors and landmarks\<close>

text \<open>
  The avatar rig (RiggedAvatar and its sub-components CyberLimb, SkeletonLine and
  CyberHand) is a set of per-frame callbacks that mutate positions held in refs.
  Each callback is embedded as a function from the state before the frame to the state
  after it. JavaScript numbers are embedded as real numbers (ideal arithmetic: rounding,
  NaN and infinities are outside the model).
\<close>

record Vector3 =
  vx :: real
  vy :: real
  vz :: real

text \<open>Modelled from the spec: the scene library's \<open>Vector3.addVectors\<close> is not part of
  the repository; the spec's midpoint is half the componentwise sum of the two points.\<close>

definition addVectors :: "Vector3 \<Rightarrow> Vector3 \<Rightarrow> Vector3" where
  "addVectors a b = \<lparr>vx = vx a + vx b, vy = vy a + vy b, vz = vz a + vz b\<rparr>"

text \<open>Modelled from the spec: the scene library's \<open>Vector3.multiplyScalar\<close> is not part
  of the repository; it scales every component, as the spec's midpoint needs.\<close>

definition multiplyScalar :: "Vector3 \<Rightarrow> real \<Rightarrow> Vector3" where
  "multiplyScalar v s = \<lparr>vx = vx v * s, vy = vy v * s, vz = vz v * s\<rparr>"

text \<open>Modelled from the spec: the scene library's \<open>Vector3.distanceTo\<close> is not part of
  the repository; the spec's distance of two world positions is the Euclidean one.\<close>

definition distanceTo :: "Vector3 \<Rightarrow> Vector3 \<Rightarrow> real" where
  "distanceTo a b =
     sqrt ((vx a - vx b) * (vx a - vx b) + (vy a - vy b) * (vy a - vy b)
           + (vz a - vz b) * (vz a - vz b))"

text \<open>Modelled from the spec: the scene library's \<open>Vector3.lerp\<close> is not part of the
  repository; the spec's blend step is the linear interpolation toward the target that
  closes the fraction \<open>alpha\<close> of the distance.\<close>

definition lerp :: "Vector3 \<Rightarrow> Vector3 \<Rightarrow> real \<Rightarrow> Vector3" where
  "lerp v t alpha =
     \<lparr>vx = vx v + (vx t - vx v) * alpha,
      vy = vy v + (vy t - vy v) * alpha,
      vz = vz v + (vz t - vz v) * alpha\<rparr>"

text \<open>The vector from \<open>b\<close> to \<open>a\<close>; the rig does not compute it, it is used to state
  directions.\<close>

definition subVectors :: "Vector3 \<Rightarrow> Vector3 \<Rightarrow> Vector3" where
  "subVectors a b = \<lparr>vx = vx a - vx b, vy = vy a - vy b, vz = vz a - vz b\<rparr>"

text \<open>A landmark of the vision library: x and y are numbers, z may be absent.\<close>

record NormalizedLandmark =
  lx :: real
  ly :: real
  lz :: "real option"

text \<open>The JavaScript expression \<open>v || 0\<close> on an optional number: an absent value
  gives 0 (and so does the number 0 itself).\<close>

definition orZero :: "real option \<Rightarrow> real" where
  "orZero v = (case v of None \<Rightarrow> 0 | Some r \<Rightarrow> r)"

subsection \<open>mapPoseToWorld\<close>

definition WORLD_HEIGHT :: real where
  "WORLD_HEIGHT = 2.0"

definition WORLD_WIDTH :: real where
  "WORLD_WIDTH = 1.6"

definition mapPoseToWorld :: "NormalizedLandmark \<Rightarrow> Vector3" where
  "mapPoseToWorld lm =
     (let y = (1 - ly lm) * WORLD_HEIGHT;
          x = (lx lm - 0.5) * - WORLD_WIDTH;
          z = orZero (lz lm) * - 0.8
      in \<lparr>vx = x, vy = y, vz = z\<rparr>)"

section \<open>Scene objects\<close>

text \<open>
  An object of the scene graph carries a position, an orientation, a scale and a
  visibility flag. The rotation algebra belongs to the scene library, so orientations
  are values of a type parameter and the three library operations the rig calls are
  passed in: \<open>lookAt\<close> (from the object's position and a target point),
  \<open>rotateX\<close> (a further rotation about the local X axis) and \<open>setRotationX\<close>
  (assignment to the X component of the Euler rotation).
\<close>

record 'q Object3D =
  position :: Vector3
  quaternion :: 'q
  scale :: Vector3
  visible :: bool

record 'q three =
  lookAt :: "Vector3 \<Rightarrow> Vector3 \<Rightarrow> 'q"
  rotateX :: "'q \<Rightarrow> real \<Rightarrow> 'q"
  setRotationX :: "'q \<Rightarrow> real \<Rightarrow> 'q"

text \<open>A free interpretation of the library operations, for concrete evaluation.\<close>

datatype Rotation =
    Identity
  | LookAt Vector3 Vector3
  | RotateX Rotation real
  | SetRotationX Rotation real

definition symbolic :: "Rotation three" where
  "symbolic = \<lparr>lookAt = LookAt, rotateX = RotateX, setRotationX = SetRotationX\<rparr>"

section \<open>CyberLimb\<close>

record 'q CyberLimb_refs =
  groupRef :: "'q Object3D option"
  frameRef :: "'q Object3D option"
  armorRef :: "'q Object3D option"

definition CyberLimb_frame ::
  "'q three \<Rightarrow> Vector3 \<Rightarrow> Vector3 \<Rightarrow> 'q CyberLimb_refs \<Rightarrow> 'q CyberLimb_refs" where
  "CyberLimb_frame T startPos endPos st =
     (case (groupRef st, frameRef st, armorRef st) of
        (Some g, Some f, Some a) \<Rightarrow>
          (let dist = distanceTo startPos endPos in
           if dist < 0.01 then st
           else
             (let mid = multiplyScalar (addVectors startPos endPos) 0.5;
                  g1 = g\<lparr>position := mid\<rparr>;
                  g2 = g1\<lparr>quaternion := lookAt T (position g1) endPos\<rparr>;
                  f1 = f\<lparr>scale := \<lparr>vx = 1, vy = dist, vz = 1\<rparr>\<rparr>;
                  f2 = f1\<lparr>quaternion := setRotationX T (quaternion f1) (pi / 2)\<rparr>;
                  a1 = a\<lparr>quaternion := setRotationX T (quaternion a) 0\<rparr>
              in st\<lparr>groupRef := Some g2, frameRef := Some f2, armorRef := Some a1\<rparr>))
      | _ \<Rightarrow> st)"

section \<open>SkeletonLine\<close>

definition SkeletonLine_frame ::
  "'q three \<Rightarrow> Vector3 \<Rightarrow> Vector3 \<Rightarrow> 'q Object3D option \<Rightarrow> 'q Object3D option" where
  "SkeletonLine_frame T s e ref =
     (case ref of
        None \<Rightarrow> None
      | Some m \<Rightarrow>
          (let dist = distanceTo s e in
           if dist > 0.001 then
             (let mid = multiplyScalar (addVectors s e) 0.5;
                  m1 = m\<lparr>position := mid\<rparr>;
                  m2 = m1\<lparr>quaternion := lookAt T (position m1) e\<rparr>;
                  m3 = m2\<lparr>quaternion := rotateX T (quaternion m2) (pi / 2)\<rparr>;
                  m4 = m3\<lparr>scale := \<lparr>vx = 1, vy = dist, vz = 1\<rparr>\<rparr>
              in Some m4)
           else Some m))"

section \<open>RiggedAvatar\<close>

text \<open>The results of the vision library. A result lists the landmark arrays of the
  detected subjects; a hand result adds, per detected hand, its handedness categories.\<close>

record LandmarkerResult =
  landmarks :: "NormalizedLandmark list list"

type_synonym PoseLandmarkerResult = LandmarkerResult

record Category =
  score :: real
  category_index :: int
  categoryName :: string
  displayName :: string

record HandLandmarkerResult = LandmarkerResult +
  handedness :: "Category list list"

record 'q RiggedAvatar_state =
  nose :: Vector3
  leftShoulder :: Vector3
  rightShoulder :: Vector3
  leftElbow :: Vector3
  rightElbow :: Vector3
  leftWrist :: Vector3
  rightWrist :: Vector3
  leftHip :: Vector3
  rightHip :: Vector3
  leftKnee :: Vector3
  rightKnee :: Vector3
  leftAnkle :: Vector3
  rightAnkle :: Vector3
  shoulderMid :: Vector3
  hipMid :: Vector3
  headRef :: "'q Object3D option"
  chestRef :: "'q Object3D option"
  pelvisRef :: "'q Object3D option"
  spineRef :: "'q Object3D option"

definition LERP_SPEED :: real where
  "LERP_SPEED = 0.8"

text \<open>The inner function \<open>update\<close>: a joint whose landmark index is missing from
  the snapshot keeps its position.\<close>

definition update :: "NormalizedLandmark list \<Rightarrow> Vector3 \<Rightarrow> nat \<Rightarrow> Vector3" where
  "update lm ref index =
     (if index < length lm
      then (let target = mapPoseToWorld (lm ! index) in lerp ref target LERP_SPEED)
      else ref)"

definition update_landmarks ::
  "NormalizedLandmark list \<Rightarrow> 'q RiggedAvatar_state \<Rightarrow> 'q RiggedAvatar_state" where
  "update_landmarks lm st =
     st\<lparr>nose := update lm (nose st) 0,
        leftShoulder := update lm (leftShoulder st) 11,
        rightShoulder := update lm (rightShoulder st) 12,
        leftElbow := update lm (leftElbow st) 13,
        rightElbow := update lm (rightElbow st) 14,
        leftWrist := update lm (leftWrist st) 15,
        rightWrist := update lm (rightWrist st) 16,
        leftHip := update lm (leftHip st) 23,
        rightHip := update lm (rightHip st) 24,
        leftKnee := update lm (leftKnee st) 25,
        rightKnee := update lm (rightKnee st) 26,
        leftAnkle := update lm (leftAnkle st) 27,
        rightAnkle := update lm (rightAnkle st) 28\<rparr>"

definition calculate_midpoints :: "'q RiggedAvatar_state \<Rightarrow> 'q RiggedAvatar_state" where
  "calculate_midpoints st =
     st\<lparr>shoulderMid := multiplyScalar (addVectors (leftShoulder st) (rightShoulder st)) 0.5,
        hipMid := multiplyScalar (addVectors (leftHip st) (rightHip st)) 0.5\<rparr>"

definition update_head :: "'q three \<Rightarrow> 'q RiggedAvatar_state \<Rightarrow> 'q RiggedAvatar_state" where
  "update_head T st =
     (case headRef st of
        None \<Rightarrow> st
      | Some h \<Rightarrow>
          (let h1 = h\<lparr>position := addVectors (nose st) \<lparr>vx = 0, vy = - 0.05, vz = 0\<rparr>\<rparr>;
               h2 = h1\<lparr>quaternion :=
                      lookAt T (position h1)
                        \<lparr>vx = vx (shoulderMid st), vy = vy (shoulderMid st), vz = 5\<rparr>\<rparr>
           in st\<lparr>headRef := Some h2\<rparr>))"

definition update_chest :: "'q three \<Rightarrow> 'q RiggedAvatar_state \<Rightarrow> 'q RiggedAvatar_state" where
  "update_chest T st =
     (case chestRef st of
        None \<Rightarrow> st
      | Some c \<Rightarrow>
          (let c1 = c\<lparr>position := shoulderMid st\<rparr>;
               c2 = c1\<lparr>quaternion := lookAt T (position c1) (hipMid st)\<rparr>;
               c3 = c2\<lparr>quaternion := rotateX T (quaternion c2) (- pi / 2)\<rparr>
           in st\<lparr>chestRef := Some c3\<rparr>))"

definition update_pelvis :: "'q three \<Rightarrow> 'q RiggedAvatar_state \<Rightarrow> 'q RiggedAvatar_state" where
  "update_pelvis T st =
     (case pelvisRef st of
        None \<Rightarrow> st
      | Some p \<Rightarrow>
          (let p1 = p\<lparr>position := hipMid st\<rparr>;
               p2 = p1\<lparr>quaternion := lookAt T (position p1) (rightHip st)\<rparr>
           in st\<lparr>pelvisRef := Some p2\<rparr>))"

definition update_spine :: "'q three \<Rightarrow> 'q RiggedAvatar_state \<Rightarrow> 'q RiggedAvatar_state" where
  "update_spine T st =
     (case spineRef st of
        None \<Rightarrow> st
      | Some sp \<Rightarrow>
          (let mid = multiplyScalar (addVectors (shoulderMid st) (hipMid st)) 0.5;
               dist = distanceTo (shoulderMid st) (hipMid st);
               s1 = sp\<lparr>position := mid\<rparr>;
               s2 = s1\<lparr>quaternion := lookAt T (position s1) (shoulderMid st)\<rparr>;
               s3 = s2\<lparr>quaternion := rotateX T (quaternion s2) (pi / 2)\<rparr>;
               s4 = s3\<lparr>scale := \<lparr>vx = 1, vy = dist * 0.9, vz = 1\<rparr>\<rparr>
           in st\<lparr>spineRef := Some s4\<rparr>))"

text \<open>The guard \<open>pose && pose.landmarks && pose.landmarks[0]\<close> of the frame callback
  of RiggedAvatar holds when a result is there and its list of detected bodies is not
  empty; the first body is the snapshot of the frame.\<close>

definition body_snapshot :: "PoseLandmarkerResult option \<Rightarrow> NormalizedLandmark list option" where
  "body_snapshot poseResults =
     (case poseResults of
        None \<Rightarrow> None
      | Some pose \<Rightarrow> (case landmarks pose of [] \<Rightarrow> None | lm # _ \<Rightarrow> Some lm))"

definition RiggedAvatar_frame ::
  "'q three \<Rightarrow> PoseLandmarkerResult option \<Rightarrow> 'q RiggedAvatar_state \<Rightarrow> 'q RiggedAvatar_state"
  where
  "RiggedAvatar_frame T poseResults st =
     (case body_snapshot poseResults of
        None \<Rightarrow> st
      | Some lm \<Rightarrow>
          update_spine T (update_pelvis T (update_chest T (update_head T
            (calculate_midpoints (update_landmarks lm st))))))"

text \<open>The state after \<open>n\<close> frames that all see the same pose result.\<close>

definition frames ::
  "'q three \<Rightarrow> PoseLandmarkerResult option \<Rightarrow> nat \<Rightarrow> 'q RiggedAvatar_state
     \<Rightarrow> 'q RiggedAvatar_state" where
  "frames T poseResults n st = (RiggedAvatar_frame T poseResults ^^ n) st"

text \<open>The tracked joints with the landmark index each one follows.\<close>

definition tracked_joints :: "(('q RiggedAvatar_state \<Rightarrow> Vector3) \<times> nat) list" where
  "tracked_joints =
     [(nose, 0), (leftShoulder, 11), (rightShoulder, 12), (leftElbow, 13),
      (rightElbow, 14), (leftWrist, 15), (rightWrist, 16), (leftHip, 23),
      (rightHip, 24), (leftKnee, 25), (rightKnee, 26), (leftAnkle, 27),
      (rightAnkle, 28)]"

section \<open>CyberHand\<close>

datatype Side = Left | Right

fun side_name :: "Side \<Rightarrow> string" where
  "side_name Left = ''Left''"
| "side_name Right = ''Right''"

datatype error = TypeError

record 'q CyberHand_refs =
  hand_groupRef :: "'q Object3D option"
  fingerSegmentsRef :: "'q Object3D option list"

text \<open>The selection loop, from index \<open>i\<close> on. Reading the first category of a hand
  that has no handedness entry (or an empty one) throws.\<close>

function findHand ::
  "HandLandmarkerResult \<Rightarrow> string \<Rightarrow> nat \<Rightarrow> error + NormalizedLandmark list option" where
  "findHand results side i =
     (if i < length (landmarks results) then
        (if i < length (handedness results) then
           (case handedness results ! i of
              [] \<Rightarrow> Inl TypeError
            | c # _ \<Rightarrow>
                if categoryName c = side then Inr (Some (landmarks results ! i))
                else findHand results side (Suc i))
         else Inl TypeError)
      else Inr None)"
  by pat_completeness auto
termination
  by (relation "measure (\<lambda>(results, side, i). length (landmarks results) - i)") auto

declare findHand.simps [simp del]

definition selectHand ::
  "HandLandmarkerResult option \<Rightarrow> Side \<Rightarrow> error + NormalizedLandmark list option" where
  "selectHand handResults side =
     (case handResults of
        None \<Rightarrow> Inr None
      | Some results \<Rightarrow> findHand results (side_name side) 0)"

definition HAND_SCALE :: real where
  "HAND_SCALE = 1.0"

text \<open>The mapping of one hand landmark \<open>lm\<close>, given the wrist joint of the body pose
  and the hand's own wrist landmark.\<close>

definition worldPoint :: "Vector3 \<Rightarrow> NormalizedLandmark \<Rightarrow> NormalizedLandmark \<Rightarrow> Vector3" where
  "worldPoint poseWrist rawWrist lm =
     (let dx = (lx lm - lx rawWrist) * - 2.5 * HAND_SCALE;
          dy = (ly rawWrist - ly lm) * 2.5 * HAND_SCALE;
          dz = orZero (lz lm) * - 2.5 * HAND_SCALE
      in \<lparr>vx = vx poseWrist + dx, vy = vy poseWrist + dy, vz = vz poseWrist + dz\<rparr>)"

definition worldPoints :: "Vector3 \<Rightarrow> NormalizedLandmark list \<Rightarrow> Vector3 list" where
  "worldPoints poseWrist handLandmarks =
     (case handLandmarks of
        [] \<Rightarrow> []
      | rawWrist # _ \<Rightarrow> map (worldPoint poseWrist rawWrist) handLandmarks)"

definition connections :: "(nat \<times> nat) list" where
  "connections =
     [(0, 1), (1, 2), (2, 3), (3, 4),
      (0, 5), (5, 6), (6, 7), (7, 8),
      (0, 9), (9, 10), (10, 11), (11, 12),
      (0, 13), (13, 14), (14, 15), (15, 16),
      (0, 17), (17, 18), (18, 19), (19, 20),
      (5, 9), (9, 13), (13, 17), (0, 5), (0, 17)]"

definition pose_bone :: "'q three \<Rightarrow> Vector3 \<Rightarrow> Vector3 \<Rightarrow> 'q Object3D \<Rightarrow> 'q Object3D" where
  "pose_bone T start end b =
     (let mid = multiplyScalar (addVectors start end) 0.5;
          dist = distanceTo start end;
          b1 = b\<lparr>position := mid\<rparr>;
          b2 = b1\<lparr>quaternion := lookAt T (position b1) end\<rparr>;
          b3 = b2\<lparr>quaternion := rotateX T (quaternion b2) (pi / 2)\<rparr>;
          b4 = b3\<lparr>scale := \<lparr>vx = 1, vy = dist, vz = 1\<rparr>\<rparr>
      in b4)"

definition segment_at :: "'a option list \<Rightarrow> nat \<Rightarrow> 'a option" where
  "segment_at segs i = (if i < length segs then segs ! i else None)"

text \<open>The \<open>forEach\<close> over the connections, from connection number \<open>i\<close> on. A bone
  whose end point is missing from the mapped points throws; the bones posed before stay
  posed.\<close>

fun update_fingers ::
  "'q three \<Rightarrow> Vector3 list \<Rightarrow> (nat \<times> nat) list \<Rightarrow> nat \<Rightarrow> 'q Object3D option list
     \<Rightarrow> (error \<times> 'q Object3D option list) + 'q Object3D option list" where
  "update_fingers T wp [] i segs = Inr segs"
| "update_fingers T wp ((s, e) # cs) i segs =
     (case segment_at segs i of
        None \<Rightarrow> update_fingers T wp cs (Suc i) segs
      | Some b \<Rightarrow>
          if s < length wp \<and> e < length wp
          then update_fingers T wp cs (Suc i) (segs[i := Some (pose_bone T (wp ! s) (wp ! e) b)])
          else Inl (TypeError, segs))"

text \<open>The frame callback of CyberHand. \<open>Inl (e, st)\<close>: the callback threw \<open>e\<close> and
  left the refs as \<open>st\<close>.\<close>

definition CyberHand_frame ::
  "'q three \<Rightarrow> HandLandmarkerResult option \<Rightarrow> Vector3 \<Rightarrow> Side \<Rightarrow> 'q CyberHand_refs
     \<Rightarrow> (error \<times> 'q CyberHand_refs) + 'q CyberHand_refs" where
  "CyberHand_frame T handResults poseWrist side st =
     (case hand_groupRef st of
        None \<Rightarrow> Inr st
      | Some g \<Rightarrow>
          (case selectHand handResults side of
             Inl e \<Rightarrow> Inl (e, st)
           | Inr None \<Rightarrow> Inr (st\<lparr>hand_groupRef := Some (g\<lparr>visible := False\<rparr>)\<rparr>)
           | Inr (Some handLandmarks) \<Rightarrow>
               (let st1 = st\<lparr>hand_groupRef := Some (g\<lparr>visible := True\<rparr>)\<rparr>;
                    wp = worldPoints poseWrist handLandmarks
                in case update_fingers T wp connections 0 (fingerSegmentsRef st1) of
                     Inl (e, segs) \<Rightarrow> Inl (e, st1\<lparr>fingerSegmentsRef := segs\<rparr>)
                   | Inr segs \<Rightarrow> Inr (st1\<lparr>fingerSegmentsRef := segs\<rparr>))))"

section \<open>Concrete scenes\<close>

text \<open>A freshly created scene object, and the rig as it is mounted: the joints in the
  T-pose the refs are initialised to, the derived points at the origin.\<close>

definition origin :: Vector3 where
  "origin = \<lparr>vx = 0, vy = 0, vz = 0\<rparr>"

definition rest_object :: "Rotation Object3D" where
  "rest_object =
     \<lparr>position = origin, quaternion = Identity, scale = \<lparr>vx = 1, vy = 1, vz = 1\<rparr>,
      visible = True\<rparr>"

definition mounted_limb :: "Rotation CyberLimb_refs" where
  "mounted_limb =
     \<lparr>groupRef = Some rest_object, frameRef = Some rest_object, armorRef = Some rest_object\<rparr>"

definition mounted_avatar :: "Rotation RiggedAvatar_state" where
  "mounted_avatar =
     \<lparr>nose = \<lparr>vx = 0, vy = 1.7, vz = 0\<rparr>,
      leftShoulder = \<lparr>vx = - 0.2, vy = 1.5, vz = 0\<rparr>,
      rightShoulder = \<lparr>vx = 0.2, vy = 1.5, vz = 0\<rparr>,
      leftElbow = \<lparr>vx = - 0.45, vy = 1.5, vz = 0\<rparr>,
      rightElbow = \<lparr>vx = 0.45, vy = 1.5, vz = 0\<rparr>,
      leftWrist = \<lparr>vx = - 0.7, vy = 1.5, vz = 0\<rparr>,
      rightWrist = \<lparr>vx = 0.7, vy = 1.5, vz = 0\<rparr>,
      leftHip = \<lparr>vx = - 0.1, vy = 0.9, vz = 0\<rparr>,
      rightHip = \<lparr>vx = 0.1, vy = 0.9, vz = 0\<rparr>,
      leftKnee = \<lparr>vx = - 0.1, vy = 0.5, vz = 0\<rparr>,
      rightKnee = \<lparr>vx = 0.1, vy = 0.5, vz = 0\<rparr>,
      leftAnkle = \<lparr>vx = - 0.1, vy = 0.1, vz = 0\<rparr>,
      rightAnkle = \<lparr>vx = 0.1, vy = 0.1, vz = 0\<rparr>,
      shoulderMid = origin,
      hipMid = origin,
      headRef = Some rest_object,
      chestRef = Some rest_object,
      pelvisRef = Some rest_object,
      spineRef = Some rest_object\<rparr>"

definition mounted_hand :: "Rotation CyberHand_refs" where
  "mounted_hand =
     \<lparr>hand_groupRef = Some rest_object, fingerSegmentsRef = replicate 25 (Some rest_object)\<rparr>"

text \<open>A body snapshot of 33 landmarks at the centre of the image, and one whose
  shoulder and hip landmarks map onto the T-pose.\<close>

definition centre_landmark :: NormalizedLandmark where
  "centre_landmark = \<lparr>lx = 0.5, ly = 0.5, lz = None\<rparr>"

definition centre_pose :: PoseLandmarkerResult where
  "centre_pose = \<lparr>landmarks = [replicate 33 centre_landmark]\<rparr>"

definition tpose_landmarks :: "NormalizedLandmark list" where
  "tpose_landmarks =
     (replicate 33 centre_landmark)
       [11 := \<lparr>lx = 0.625, ly = 0.25, lz = Some 0\<rparr>,
        12 := \<lparr>lx = 0.375, ly = 0.25, lz = Some 0\<rparr>,
        23 := \<lparr>lx = 0.5625, ly = 0.55, lz = Some 0\<rparr>,
        24 := \<lparr>lx = 0.4375, ly = 0.55, lz = Some 0\<rparr>]"

definition tpose_pose :: PoseLandmarkerResult where
  "tpose_pose = \<lparr>landmarks = [tpose_landmarks]\<rparr>"

text \<open>Two end points 0.005 apart, and two 0.6 apart.\<close>

definition near_point :: Vector3 where
  "near_point = \<lparr>vx = 0, vy = 0.005, vz = 0\<rparr>"

definition hip_centre :: Vector3 where
  "hip_centre = \<lparr>vx = 0, vy = 0.9, vz = 0\<rparr>"

definition shoulder_centre :: Vector3 where
  "shoulder_centre = \<lparr>vx = 0, vy = 1.5, vz = 0\<rparr>"

text \<open>Hand detections: a flat hand of 21 landmarks, a second hand, the two labels with
  two different scores each, and a wrist landmark with a depth of its own.\<close>

definition flat_hand :: "NormalizedLandmark list" where
  "flat_hand = replicate 21 \<lparr>lx = 0.3, ly = 0.6, lz = Some 0\<rparr>"

definition other_hand :: "NormalizedLandmark list" where
  "other_hand = replicate 21 \<lparr>lx = 0.7, ly = 0.6, lz = Some 0\<rparr>"

definition label :: "string \<Rightarrow> real \<Rightarrow> Category" where
  "label name sc =
     \<lparr>score = sc, category_index = 0, categoryName = name, displayName = name\<rparr>"

definition two_hands :: "real \<Rightarrow> real \<Rightarrow> HandLandmarkerResult" where
  "two_hands s1 s2 =
     \<lparr>landmarks = [flat_hand, other_hand],
      handedness = [[label ''Left'' s1], [label ''Right'' s2]]\<rparr>"

definition left_only :: HandLandmarkerResult where
  "left_only = \<lparr>landmarks = [flat_hand], handedness = [[label ''Left'' 0.9]]\<rparr>"

definition deep_wrist :: NormalizedLandmark where
  "deep_wrist = \<lparr>lx = 0.5, ly = 0.5, lz = Some 1\<rparr>"

section \<open>Vector facts\<close>

lemma lerp_component:
  fixes p t :: real
  shows "p + (t - p) * 0.8 - t = 0.2 * (p - t)"
  by argo

lemma lerp_square:
  fixes p t :: real
  shows "(p + (t - p) * 0.8 - t) * (p + (t - p) * 0.8 - t) = (0.2)\<^sup>2 * ((p - t) * (p - t))"
  unfolding lerp_component by (simp add: power2_eq_square)

lemma distanceTo_lerp:
  "distanceTo (lerp p t LERP_SPEED) t = 0.2 * distanceTo p t"
proof -
  let ?d = "(vx p - vx t) * (vx p - vx t) + (vy p - vy t) * (vy p - vy t)
           + (vz p - vz t) * (vz p - vz t)"
  have "distanceTo (lerp p t LERP_SPEED) t = sqrt ((0.2)\<^sup>2 * ?d)"
    unfolding distanceTo_def lerp_def LERP_SPEED_def Vector3.select_convs lerp_square
    by (simp only: distrib_left)
  also have "\<dots> = 0.2 * distanceTo p t"
    unfolding distanceTo_def by (simp add: real_sqrt_mult)
  finally show ?thesis .
qed

lemma distanceTo_nonneg: "0 \<le> distanceTo a b"
  unfolding distanceTo_def by simp

lemma distanceTo_lerp_le: "distanceTo (lerp p t LERP_SPEED) t \<le> distanceTo p t"
  using distanceTo_nonneg [of p t] by (simp add: distanceTo_lerp)

lemma distanceTo_commute: "distanceTo a b = distanceTo b a"
  unfolding distanceTo_def by (simp add: algebra_simps)

lemma distanceTo_self: "distanceTo p p = 0"
  unfolding distanceTo_def by simp

lemma midpoint_commute:
  "multiplyScalar (addVectors a b) s = multiplyScalar (addVectors b a) s"
  unfolding multiplyScalar_def addVectors_def by (simp add: add.commute)

lemma distanceTo_vertical:
  "distanceTo \<lparr>vx = x, vy = y1, vz = z\<rparr> \<lparr>vx = x, vy = y2, vz = z\<rparr> = \<bar>y1 - y2\<bar>"
  unfolding distanceTo_def by simp

lemma tracked_index: "(j, i) \<in> set tracked_joints \<Longrightarrow> i \<le> 28"
  by (auto simp: tracked_joints_def)

lemma frame_joint:
  assumes "body_snapshot poseResults = Some lm" "(j, i) \<in> set tracked_joints"
  shows "j (RiggedAvatar_frame T poseResults st) = update lm (j st) i"
proof -
  have "j (update_spine T s) = j s" "j (update_pelvis T s) = j s"
       "j (update_chest T s) = j s" "j (update_head T s) = j s"
       "j (calculate_midpoints s) = j s" for s :: "'a RiggedAvatar_state"
    using assms(2)
    by (auto simp: tracked_joints_def update_spine_def update_pelvis_def
      update_chest_def update_head_def calculate_midpoints_def Let_def split: option.splits)
  moreover have "j (update_landmarks lm st) = update lm (j st) i"
    using assms(2) by (auto simp: tracked_joints_def update_landmarks_def)
  ultimately show ?thesis using assms(1) by (simp add: RiggedAvatar_frame_def)
qed

text \<open>
  C1. With a static body snapshot that holds every tracked landmark index, each frame
  brings every tracked joint no farther from its mapped target than it was the frame
  before: the distance to the target is non-increasing under the blend step with the
  fixed factor 0.8, from any initial state.
\<close>

theorem blend_step_monotone:
  assumes "body_snapshot poseResults = Some lm" and "28 < length lm"
  shows "\<forall>(j, i) \<in> set tracked_joints.
           distanceTo (j (frames T poseResults (Suc n) st)) (mapPoseToWorld (lm ! i))
             \<le> distanceTo (j (frames T poseResults n st)) (mapPoseToWorld (lm ! i))"
proof (clarify)
  fix j :: "'a RiggedAvatar_state \<Rightarrow> Vector3" and i
  assume ji: "(j, i) \<in> set tracked_joints"
  let ?s = "frames T poseResults n st"
  have "i < length lm" using tracked_index [OF ji] assms(2) by simp
  then have "j (frames T poseResults (Suc n) st) = lerp (j ?s) (mapPoseToWorld (lm ! i)) LERP_SPEED"
    by (simp add: frames_def frame_joint [OF assms(1) ji] update_def)
  then show "distanceTo (j (frames T poseResults (Suc n) st)) (mapPoseToWorld (lm ! i))
             \<le> distanceTo (j ?s) (mapPoseToWorld (lm ! i))"
    by (simp add: distanceTo_lerp_le)
qed

theorem blend_step_monotone_witness:
  "body_snapshot (Some centre_pose) = Some (replicate 33 centre_landmark)
   \<and> 28 < length (replicate 33 centre_landmark)
   \<and> distanceTo (nose (frames symbolic (Some centre_pose) (Suc 1) mounted_avatar))
           (mapPoseToWorld (replicate 33 centre_landmark ! 0))
         \<le> distanceTo (nose (frames symbolic (Some centre_pose) 1 mounted_avatar))
           (mapPoseToWorld (replicate 33 centre_landmark ! 0))
   \<and> distanceTo (rightAnkle (frames symbolic (Some centre_pose) (Suc 1) mounted_avatar))
           (mapPoseToWorld (replicate 33 centre_landmark ! 28))
         \<le> distanceTo (rightAnkle (frames symbolic (Some centre_pose) 1 mounted_avatar))
           (mapPoseToWorld (replicate 33 centre_landmark ! 28))"
proof -
  have a: "body_snapshot (Some centre_pose) = Some (replicate 33 centre_landmark)"
    by (simp add: body_snapshot_def centre_pose_def)
  have b: "28 < length (replicate 33 centre_landmark)" by simp
  show ?thesis
    using a b blend_step_monotone [OF a b, of symbolic 1 mounted_avatar]
    by (simp add: tracked_joints_def)
qed

text \<open>
  C2. In a frame without a body snapshot the whole update is skipped: every tracked joint,
  both derived midpoints and every posed body part are exactly as the frame before left
  them.
\<close>

theorem freeze_without_body:
  assumes "body_snapshot poseResults = None"
  shows "RiggedAvatar_frame T poseResults st = st"
  using assms by (simp add: RiggedAvatar_frame_def)


theorem freeze_without_body_witness:
  "body_snapshot (Some \<lparr>landmarks = []\<rparr>) = None
   \<and> RiggedAvatar_frame symbolic (Some \<lparr>landmarks = []\<rparr>) mounted_avatar = mounted_avatar
   \<and> body_snapshot None = None
   \<and> RiggedAvatar_frame symbolic None mounted_avatar = mounted_avatar"
proof -
  have a: "body_snapshot (Some \<lparr>landmarks = []\<rparr>) = None"
    by (simp add: body_snapshot_def)
  have b: "body_snapshot None = None"
    by (simp add: body_snapshot_def)
  show ?thesis
    using a b freeze_without_body [OF a, of symbolic mounted_avatar]
      freeze_without_body [OF b, of symbolic mounted_avatar]
    by simp
qed

section \<open>Mapping and limb posing\<close>

lemma distance_near: "distanceTo origin near_point = 0.005"
  unfolding origin_def near_point_def by (simp add: distanceTo_vertical)

lemma distance_spine: "distanceTo shoulder_centre hip_centre = 0.6"
  unfolding shoulder_centre_def hip_centre_def by (simp add: distanceTo_vertical)

text \<open>
  C6. For end points at least 0.01 apart and a mounted limb, posing from \<open>a\<close> to
  \<open>b\<close> and from \<open>b\<close> to \<open>a\<close> puts the group at the same midpoint and gives
  the inner frame the same scale (the distance along Y); in each call the orientation is
  the look-at from the midpoint to the second argument, and the direction from the
  midpoint to that argument is half the vector from the first argument to the second.
\<close>

theorem limb_swap:
  assumes "0.01 \<le> distanceTo a b"
    and "groupRef st = Some g" and "frameRef st = Some f" and "armorRef st = Some ar"
  shows "map_option position (groupRef (CyberLimb_frame T a b st))
           = Some (multiplyScalar (addVectors a b) 0.5)
       \<and> map_option position (groupRef (CyberLimb_frame T b a st))
           = Some (multiplyScalar (addVectors a b) 0.5)
       \<and> map_option scale (frameRef (CyberLimb_frame T a b st))
           = Some \<lparr>vx = 1, vy = distanceTo a b, vz = 1\<rparr>
       \<and> map_option scale (frameRef (CyberLimb_frame T b a st))
           = Some \<lparr>vx = 1, vy = distanceTo a b, vz = 1\<rparr>
       \<and> map_option quaternion (groupRef (CyberLimb_frame T a b st))
           = Some (lookAt T (multiplyScalar (addVectors a b) 0.5) b)
       \<and> map_option quaternion (groupRef (CyberLimb_frame T b a st))
           = Some (lookAt T (multiplyScalar (addVectors a b) 0.5) a)
       \<and> subVectors b (multiplyScalar (addVectors a b) 0.5) = multiplyScalar (subVectors b a) 0.5
       \<and> subVectors a (multiplyScalar (addVectors a b) 0.5) = multiplyScalar (subVectors a b) 0.5"
proof -
  have ba: "\<not> distanceTo b a < 0.01" "\<not> distanceTo a b < 0.01"
    using assms(1) by (simp_all add: distanceTo_commute [of b a])
  have m: "multiplyScalar (addVectors b a) 0.5 = multiplyScalar (addVectors a b) 0.5"
    by (rule midpoint_commute)
  have d: "subVectors b (multiplyScalar (addVectors a b) 0.5) = multiplyScalar (subVectors b a) 0.5"
     "subVectors a (multiplyScalar (addVectors a b) 0.5) = multiplyScalar (subVectors a b) 0.5"
    by (simp_all add: subVectors_def multiplyScalar_def addVectors_def algebra_simps)
  show ?thesis
    using assms(2-4) ba d
    by (simp add: CyberLimb_frame_def Let_def midpoint_commute [of b a] distanceTo_commute [of b a])
qed

theorem limb_swap_witness:
  "0.01 \<le> distanceTo hip_centre shoulder_centre
   \<and> groupRef mounted_limb = Some rest_object
   \<and> map_option position (groupRef (CyberLimb_frame symbolic hip_centre shoulder_centre mounted_limb))
       = Some \<lparr>vx = 0, vy = 1.2, vz = 0\<rparr>
   \<and> map_option position (groupRef (CyberLimb_frame symbolic shoulder_centre hip_centre mounted_limb))
       = Some \<lparr>vx = 0, vy = 1.2, vz = 0\<rparr>
   \<and> map_option scale (frameRef (CyberLimb_frame symbolic shoulder_centre hip_centre mounted_limb))
       = Some \<lparr>vx = 1, vy = 0.6, vz = 1\<rparr>"
proof -
  have a: "0.01 \<le> distanceTo hip_centre shoulder_centre"
    by (simp add: distanceTo_commute [of hip_centre] distance_spine)
  have m: "multiplyScalar (addVectors hip_centre shoulder_centre) 0.5 = \<lparr>vx = 0, vy = 1.2, vz = 0\<rparr>"
    by (simp add: multiplyScalar_def addVectors_def hip_centre_def shoulder_centre_def)
  have g: "groupRef mounted_limb = Some rest_object" "frameRef mounted_limb = Some rest_object"
    "armorRef mounted_limb = Some rest_object"
    by (simp_all add: mounted_limb_def)
  show ?thesis
    using a g(1) limb_swap [OF a g, of symbolic] m
    by (simp add: distanceTo_commute [of hip_centre] distance_spine)
qed

text \<open>
  C8. The body mapping is a function of the landmark alone: world x is the offset from
  the 0.5 midline times the width 1.6 (mirrored), world y is (1 - y) times the height 2,
  world z is z times the depth scale -0.8, and an absent z gives depth 0. The midline
  maps to x = 0.
\<close>

theorem mapPoseToWorld_formula:
  "mapPoseToWorld lm =
     \<lparr>vx = (lx lm - 0.5) * - 1.6, vy = (1 - ly lm) * 2,
      vz = (case lz lm of None \<Rightarrow> 0 | Some z \<Rightarrow> z * - 0.8)\<rparr>
   \<and> vx (mapPoseToWorld (lm\<lparr>lx := 0.5\<rparr>)) = 0
   \<and> vz (mapPoseToWorld (lm\<lparr>lz := None\<rparr>)) = 0"
  by (simp add: mapPoseToWorld_def WORLD_HEIGHT_def WORLD_WIDTH_def orZero_def Let_def
      split: option.splits)

text \<open>
  C4, as amended. The hand mapping adds to the wrist anchor, on x and y, -2.5 times the
  offset of the landmark from the hand's own wrist landmark; on z it adds -2.5 times the
  landmark's own depth (0 when absent), which is not taken relative to the wrist
  landmark.
\<close>

theorem worldPoint_formula:
  "worldPoint a w l =
     \<lparr>vx = vx a + - 2.5 * (lx l - lx w),
      vy = vy a + - 2.5 * (ly l - ly w),
      vz = vz a + - 2.5 * orZero (lz l)\<rparr>"
  by (simp add: worldPoint_def HAND_SCALE_def Let_def; argo)

text \<open>
  C4, as stated, fails on the depth axis: mapping the wrist landmark itself, whose offset
  from itself is 0 on every axis, does not give the anchor's z when the landmark has a
  depth.
\<close>

theorem worldPoint_depth_counterexample:
  "vz (worldPoint origin deep_wrist deep_wrist) = - 2.5
   \<and> vz origin = 0
   \<and> orZero (lz deep_wrist) - orZero (lz deep_wrist) = 0"
  by (simp add: worldPoint_def HAND_SCALE_def Let_def origin_def deep_wrist_def orZero_def)

section \<open>Hand selection\<close>

lemma findHand_no_match:
  assumes "\<forall>k. i \<le> k \<and> k < length (landmarks r) \<longrightarrow>
             k < length (handedness r) \<and> handedness r ! k \<noteq> []
             \<and> categoryName (hd (handedness r ! k)) \<noteq> s"
  shows "findHand r s i = Inr None"
  using assms
proof (induction r s i rule: findHand.induct)
  case (1 results side i)
  show ?case
  proof (cases "i < length (landmarks results)")
    case False
    then show ?thesis by (subst findHand.simps) simp
  next
    case True
    with "1.prems" have h: "i < length (handedness results)" "handedness results ! i \<noteq> []"
      "categoryName (hd (handedness results ! i)) \<noteq> side"
      by auto
    then obtain c cs where c: "handedness results ! i = c # cs" "categoryName c \<noteq> side"
      by (cases "handedness results ! i") auto
    have "findHand results side (Suc i) = Inr None"
      using "1.IH" [OF True h(1) c(1) c(2)] "1.prems" by auto
    then show ?thesis
      using True h(1) c by (subst findHand.simps) simp
  qed
qed

lemma findHand_labels:
  assumes "landmarks r1 = landmarks r2"
    and "map (map categoryName) (handedness r1) = map (map categoryName) (handedness r2)"
  shows "findHand r1 s i = findHand r2 s i"
  using assms
proof (induction r1 s i rule: findHand.induct)
  case (1 results side i)
  have len: "length (handedness results) = length (handedness r2)"
    using "1.prems"(2) by (rule map_eq_imp_length_eq)
  show ?case
  proof (cases "i < length (landmarks results) \<and> i < length (handedness results)")
    case False
    then show ?thesis
      using len "1.prems"(1)
      by (subst findHand.simps, subst (2) findHand.simps) auto
  next
    case True
    then have il: "i < length (landmarks results)" and ih: "i < length (handedness results)"
      by simp_all
    have "map (map categoryName) (handedness results) ! i
            = map (map categoryName) (handedness r2) ! i"
      using "1.prems"(2) by simp
    then have names: "map categoryName (handedness results ! i)
                        = map categoryName (handedness r2 ! i)"
      using ih len by simp
    show ?thesis
    proof (cases "handedness results ! i")
      case Nil
      with names have "handedness r2 ! i = []" by simp
      with Nil show ?thesis
        using il ih len "1.prems"(1)
        by (subst findHand.simps, subst (2) findHand.simps) simp
    next
      case (Cons c cs)
      with names obtain c' cs' where c': "handedness r2 ! i = c' # cs'"
        "categoryName c' = categoryName c"
        by (cases "handedness r2 ! i") auto
      show ?thesis
      proof (cases "categoryName c = side")
        case True
        then show ?thesis
          using il ih len "1.prems"(1) Cons c'
          by (subst findHand.simps, subst (2) findHand.simps) simp
      next
        case False
        have "findHand results side (Suc i) = findHand r2 side (Suc i)"
          using "1.IH" [OF il ih Cons False] "1.prems" by simp
        then show ?thesis
          using il ih len "1.prems"(1) Cons c' False
          by (subst findHand.simps, subst (2) findHand.simps) simp
      qed
    qed
  qed
qed

text \<open>
  C10. Two hand results with the same landmark arrays and the same category names, whatever
  their scores (and the other category fields), select the same hand for a side and leave
  the hand rig in the same state: same visibility, same bone poses, same outcome.
\<close>

theorem selectHand_ignores_scores:
  assumes "landmarks r1 = landmarks r2"
    and "map (map categoryName) (handedness r1) = map (map categoryName) (handedness r2)"
  shows "selectHand (Some r1) side = selectHand (Some r2) side
       \<and> CyberHand_frame T (Some r1) w side st = CyberHand_frame T (Some r2) w side st"
proof -
  have eq: "selectHand (Some r1) side = selectHand (Some r2) side"
    using findHand_labels [OF assms] by (simp add: selectHand_def)
  show ?thesis
    unfolding CyberHand_frame_def eq by simp
qed

lemma findHand_two_hands_right:
  "findHand (two_hands s1 s2) ''Right'' 0 = Inr (Some other_hand)"
  by (simp add: findHand.simps [of _ _ 0] findHand.simps [of _ _ "Suc 0"] two_hands_def label_def)

theorem selectHand_ignores_scores_witness:
  "landmarks (two_hands 0.9 0.3) = landmarks (two_hands 0.1 1)
   \<and> map (map categoryName) (handedness (two_hands 0.9 0.3))
       = map (map categoryName) (handedness (two_hands 0.1 1))
   \<and> handedness (two_hands 0.9 0.3) \<noteq> handedness (two_hands 0.1 1)
   \<and> selectHand (Some (two_hands 0.9 0.3)) Right = Inr (Some other_hand)
   \<and> selectHand (Some (two_hands 0.1 1)) Right = Inr (Some other_hand)
   \<and> CyberHand_frame symbolic (Some (two_hands 0.9 0.3)) origin Right mounted_hand
       = CyberHand_frame symbolic (Some (two_hands 0.1 1)) origin Right mounted_hand"
proof -
  have a: "landmarks (two_hands 0.9 0.3) = landmarks (two_hands 0.1 1)"
    by (simp add: two_hands_def)
  have b: "map (map categoryName) (handedness (two_hands 0.9 0.3))
       = map (map categoryName) (handedness (two_hands 0.1 1))"
    by (simp add: two_hands_def label_def)
  have c: "handedness (two_hands 0.9 0.3) \<noteq> handedness (two_hands 0.1 1)"
    by (simp add: two_hands_def label_def)
  show ?thesis
    using a b c selectHand_ignores_scores [OF a b, of Right symbolic origin mounted_hand]
    by (simp add: selectHand_def findHand_two_hands_right)
qed

text \<open>
  C7. From a result holding one hand labelled Left and one labelled Right, in either
  order, the selection for Right gives the hand labelled Right and the selection for Left
  the hand labelled Left. When no hand of the result carries the requested label (or
  there is no result), nothing is selected and the callback only hides the group: the
  finger segments keep their poses.
\<close>

theorem selectHand_side_pure:
  assumes "categoryName cL = ''Left''" and "categoryName cR = ''Right''"
    and "\<forall>k < length (landmarks r). k < length (handedness r) \<and> handedness r ! k \<noteq> []
             \<and> categoryName (hd (handedness r ! k)) \<noteq> side_name side"
  shows "selectHand (Some \<lparr>landmarks = [hl, hr], handedness = [cL # xs, cR # ys]\<rparr>) Right
           = Inr (Some hr)
       \<and> selectHand (Some \<lparr>landmarks = [hr, hl], handedness = [cR # ys, cL # xs]\<rparr>) Right
           = Inr (Some hr)
       \<and> selectHand (Some \<lparr>landmarks = [hl, hr], handedness = [cL # xs, cR # ys]\<rparr>) Left
           = Inr (Some hl)
       \<and> selectHand (Some \<lparr>landmarks = [hr, hl], handedness = [cR # ys, cL # xs]\<rparr>) Left
           = Inr (Some hl)
       \<and> selectHand (Some r) side = Inr None
       \<and> CyberHand_frame T (Some r) w side st
           = Inr (st\<lparr>hand_groupRef := map_option (\<lambda>g. g\<lparr>visible := False\<rparr>) (hand_groupRef st)\<rparr>)
       \<and> CyberHand_frame T None w side st
           = Inr (st\<lparr>hand_groupRef := map_option (\<lambda>g. g\<lparr>visible := False\<rparr>) (hand_groupRef st)\<rparr>)"
proof -
  have none: "findHand r (side_name side) 0 = Inr None"
    using assms(3) by (intro findHand_no_match) simp
  have two: "selectHand (Some \<lparr>landmarks = [hl, hr], handedness = [cL # xs, cR # ys]\<rparr>) Right
           = Inr (Some hr)"
    "selectHand (Some \<lparr>landmarks = [hr, hl], handedness = [cR # ys, cL # xs]\<rparr>) Right
           = Inr (Some hr)"
    "selectHand (Some \<lparr>landmarks = [hl, hr], handedness = [cL # xs, cR # ys]\<rparr>) Left
           = Inr (Some hl)"
    "selectHand (Some \<lparr>landmarks = [hr, hl], handedness = [cR # ys, cL # xs]\<rparr>) Left
           = Inr (Some hl)"
    using assms(1,2)
    by (simp_all add: selectHand_def findHand.simps [of _ _ 0] findHand.simps [of _ _ "Suc 0"])
  have hide: "CyberHand_frame T (Some r) w side st
           = Inr (st\<lparr>hand_groupRef := map_option (\<lambda>g. g\<lparr>visible := False\<rparr>) (hand_groupRef st)\<rparr>)"
    "CyberHand_frame T None w side st
           = Inr (st\<lparr>hand_groupRef := map_option (\<lambda>g. g\<lparr>visible := False\<rparr>) (hand_groupRef st)\<rparr>)"
    using none by (simp_all add: CyberHand_frame_def selectHand_def split: option.splits)
  show ?thesis using none two hide by (simp add: selectHand_def)
qed

theorem selectHand_side_pure_witness:
  "categoryName (label ''Left'' 0.9) = ''Left''
   \<and> categoryName (label ''Right'' 0.8) = ''Right''
   \<and> selectHand (Some \<lparr>landmarks = [flat_hand, other_hand],
         handedness = [[label ''Left'' 0.9], [label ''Right'' 0.8]]\<rparr>) Right = Inr (Some other_hand)
   \<and> selectHand (Some \<lparr>landmarks = [other_hand, flat_hand],
         handedness = [[label ''Right'' 0.8], [label ''Left'' 0.9]]\<rparr>) Right = Inr (Some other_hand)
   \<and> selectHand (Some left_only) Right = Inr None
   \<and> CyberHand_frame symbolic (Some left_only) origin Right mounted_hand
       = Inr (mounted_hand\<lparr>hand_groupRef := Some (rest_object\<lparr>visible := False\<rparr>)\<rparr>)"
proof -
  have a: "categoryName (label ''Left'' 0.9) = ''Left''"
    and b: "categoryName (label ''Right'' 0.8) = ''Right''"
    by (simp_all add: label_def)
  have c: "\<forall>k < length (landmarks left_only). k < length (handedness left_only)
             \<and> handedness left_only ! k \<noteq> []
             \<and> categoryName (hd (handedness left_only ! k)) \<noteq> side_name Right"
    by (simp add: left_only_def label_def)
  show ?thesis
    using a b selectHand_side_pure [OF a b c, of flat_hand other_hand "[]" "[]" symbolic origin mounted_hand]
    by (simp add: mounted_hand_def)
qed

section \<open>Midpoints, spine and the stretching elements\<close>

lemma frame_midpoints:
  assumes "body_snapshot poseResults = Some lm"
  shows "shoulderMid (RiggedAvatar_frame T poseResults st)
           = multiplyScalar (addVectors (leftShoulder (update_landmarks lm st))
               (rightShoulder (update_landmarks lm st))) 0.5"
    and "hipMid (RiggedAvatar_frame T poseResults st)
           = multiplyScalar (addVectors (leftHip (update_landmarks lm st))
               (rightHip (update_landmarks lm st))) 0.5"
  using assms
  by (simp_all add: RiggedAvatar_frame_def update_spine_def update_pelvis_def
      update_chest_def update_head_def calculate_midpoints_def Let_def split: option.splits)

lemma update_spine_pose:
  assumes "spineRef s = Some sp"
  shows "spineRef (update_spine T s) =
           Some (sp\<lparr>position := multiplyScalar (addVectors (shoulderMid s) (hipMid s)) 0.5,
                    quaternion := rotateX T (lookAt T
                       (multiplyScalar (addVectors (shoulderMid s) (hipMid s)) 0.5)
                       (shoulderMid s)) (pi / 2),
                    scale := \<lparr>vx = 1, vy = distanceTo (shoulderMid s) (hipMid s) * 0.9, vz = 1\<rparr>\<rparr>)"
  using assms by (simp add: update_spine_def Let_def)

lemma before_spine:
  "spineRef (update_pelvis T (update_chest T (update_head T (calculate_midpoints st))))
     = spineRef st"
  "shoulderMid (update_pelvis T (update_chest T (update_head T (calculate_midpoints st))))
     = shoulderMid (calculate_midpoints st)"
  "hipMid (update_pelvis T (update_chest T (update_head T (calculate_midpoints st))))
     = hipMid (calculate_midpoints st)"
  by (simp_all add: update_pelvis_def update_chest_def update_head_def calculate_midpoints_def
      Let_def split: option.splits)

text \<open>
  C9. In a frame whose updated shoulder joints are (-0.2, 1.5, 0) and (0.2, 1.5, 0) and
  whose updated hip joints are (-0.1, 0.9, 0) and (0.1, 0.9, 0), the shoulder midpoint is
  (0, 1.5, 0), the hip midpoint is (0, 0.9, 0) and the spine is scaled along Y by 0.54,
  the distance 0.6 of the midpoints times 0.9.
\<close>

theorem spine_scenario:
  assumes "body_snapshot poseResults = Some lm"
    and "leftShoulder (update_landmarks lm st) = \<lparr>vx = - 0.2, vy = 1.5, vz = 0\<rparr>"
    and "rightShoulder (update_landmarks lm st) = \<lparr>vx = 0.2, vy = 1.5, vz = 0\<rparr>"
    and "leftHip (update_landmarks lm st) = \<lparr>vx = - 0.1, vy = 0.9, vz = 0\<rparr>"
    and "rightHip (update_landmarks lm st) = \<lparr>vx = 0.1, vy = 0.9, vz = 0\<rparr>"
    and "spineRef st = Some sp"
  shows "shoulderMid (RiggedAvatar_frame T poseResults st) = \<lparr>vx = 0, vy = 1.5, vz = 0\<rparr>
       \<and> hipMid (RiggedAvatar_frame T poseResults st) = \<lparr>vx = 0, vy = 0.9, vz = 0\<rparr>
       \<and> map_option scale (spineRef (RiggedAvatar_frame T poseResults st))
           = Some \<lparr>vx = 1, vy = 0.54, vz = 1\<rparr>"
proof -
  let ?s = "update_pelvis T (update_chest T (update_head T
              (calculate_midpoints (update_landmarks lm st))))"
  have sm: "shoulderMid (RiggedAvatar_frame T poseResults st) = shoulder_centre"
    using assms(2,3)
    by (simp add: frame_midpoints(1) [OF assms(1)] multiplyScalar_def addVectors_def
        shoulder_centre_def)
  have hm: "hipMid (RiggedAvatar_frame T poseResults st) = hip_centre"
    using assms(4,5)
    by (simp add: frame_midpoints(2) [OF assms(1)] multiplyScalar_def addVectors_def
        hip_centre_def)
  have "spineRef (update_landmarks lm st) = Some sp"
    using assms(6) by (simp add: update_landmarks_def)
  then have ref: "spineRef ?s = Some sp" by (simp add: before_spine(1))
  have "shoulderMid ?s = shoulder_centre" "hipMid ?s = hip_centre"
    unfolding before_spine
    using assms(2-5)
    by (simp_all add: calculate_midpoints_def multiplyScalar_def addVectors_def
        shoulder_centre_def hip_centre_def)
  then have "map_option scale (spineRef (update_spine T ?s))
           = Some \<lparr>vx = 1, vy = 0.54, vz = 1\<rparr>"
    by (simp add: update_spine_pose [OF ref] distance_spine)
  then show ?thesis
    using sm hm assms(1)
    by (simp add: RiggedAvatar_frame_def shoulder_centre_def hip_centre_def)
qed

theorem spine_scenario_witness:
  "body_snapshot (Some tpose_pose) = Some tpose_landmarks
   \<and> leftShoulder (update_landmarks tpose_landmarks mounted_avatar) = \<lparr>vx = - 0.2, vy = 1.5, vz = 0\<rparr>
   \<and> rightHip (update_landmarks tpose_landmarks mounted_avatar) = \<lparr>vx = 0.1, vy = 0.9, vz = 0\<rparr>
   \<and> shoulderMid (RiggedAvatar_frame symbolic (Some tpose_pose) mounted_avatar)
       = \<lparr>vx = 0, vy = 1.5, vz = 0\<rparr>
   \<and> hipMid (RiggedAvatar_frame symbolic (Some tpose_pose) mounted_avatar)
       = \<lparr>vx = 0, vy = 0.9, vz = 0\<rparr>
   \<and> map_option scale (spineRef (RiggedAvatar_frame symbolic (Some tpose_pose) mounted_avatar))
       = Some \<lparr>vx = 1, vy = 0.54, vz = 1\<rparr>"
proof -
  have a: "body_snapshot (Some tpose_pose) = Some tpose_landmarks"
    by (simp add: body_snapshot_def tpose_pose_def)
  have j: "leftShoulder (update_landmarks tpose_landmarks mounted_avatar) = \<lparr>vx = - 0.2, vy = 1.5, vz = 0\<rparr>"
    "rightShoulder (update_landmarks tpose_landmarks mounted_avatar) = \<lparr>vx = 0.2, vy = 1.5, vz = 0\<rparr>"
    "leftHip (update_landmarks tpose_landmarks mounted_avatar) = \<lparr>vx = - 0.1, vy = 0.9, vz = 0\<rparr>"
    "rightHip (update_landmarks tpose_landmarks mounted_avatar) = \<lparr>vx = 0.1, vy = 0.9, vz = 0\<rparr>"
    by (simp_all add: update_landmarks_def update_def tpose_landmarks_def mounted_avatar_def
        mapPoseToWorld_def WORLD_HEIGHT_def WORLD_WIDTH_def LERP_SPEED_def lerp_def orZero_def
        Let_def)
  have r: "spineRef mounted_avatar = Some rest_object"
    by (simp add: mounted_avatar_def)
  show ?thesis
    using a j(1,4) spine_scenario [OF a j r, of symbolic] by simp
qed

text \<open>
  C3, as stated, fails: the three stretching elements are three routines. For end points
  0.005 apart the limb keeps its pose while the debug line moves to the midpoint; for the
  same end points 0.6 apart the limb's frame is scaled by 0.6 and the spine by 0.54; at
  distance 0 the spine is scaled to 0 while the limb keeps its scale.
\<close>

theorem stretch_routines_differ_counterexample:
  "map_option position (groupRef (CyberLimb_frame symbolic origin near_point mounted_limb))
     = Some origin
   \<and> map_option position (SkeletonLine_frame symbolic origin near_point (Some rest_object))
     = Some \<lparr>vx = 0, vy = 0.0025, vz = 0\<rparr>
   \<and> map_option scale (frameRef (CyberLimb_frame symbolic hip_centre shoulder_centre mounted_limb))
     = Some \<lparr>vx = 1, vy = 0.6, vz = 1\<rparr>
   \<and> map_option scale (spineRef (update_spine symbolic
        (mounted_avatar\<lparr>shoulderMid := shoulder_centre, hipMid := hip_centre\<rparr>)))
     = Some \<lparr>vx = 1, vy = 0.54, vz = 1\<rparr>
   \<and> map_option scale (spineRef (update_spine symbolic
        (mounted_avatar\<lparr>shoulderMid := origin, hipMid := origin\<rparr>)))
     = Some \<lparr>vx = 1, vy = 0, vz = 1\<rparr>
   \<and> map_option scale (frameRef (CyberLimb_frame symbolic origin origin mounted_limb))
     = Some \<lparr>vx = 1, vy = 1, vz = 1\<rparr>
   \<and> map_option position (groupRef (CyberLimb_frame symbolic origin near_point mounted_limb))
     \<noteq> map_option position (SkeletonLine_frame symbolic origin near_point (Some rest_object))
   \<and> map_option scale (frameRef (CyberLimb_frame symbolic hip_centre shoulder_centre mounted_limb))
     \<noteq> map_option scale (spineRef (update_spine symbolic
        (mounted_avatar\<lparr>shoulderMid := shoulder_centre, hipMid := hip_centre\<rparr>)))"
proof -
  have d: "distanceTo hip_centre shoulder_centre = 0.6"
    by (simp add: distanceTo_commute [of hip_centre] distance_spine)
  have r: "spineRef (mounted_avatar\<lparr>shoulderMid := a, hipMid := b\<rparr>) = Some rest_object" for a b
    by (simp add: mounted_avatar_def)
  have limb: "CyberLimb_frame symbolic origin near_point mounted_limb = mounted_limb"
    "CyberLimb_frame symbolic origin origin mounted_limb = mounted_limb"
    by (simp_all add: CyberLimb_frame_def distance_near distanceTo_self mounted_limb_def Let_def)
  have line: "map_option position (SkeletonLine_frame symbolic origin near_point (Some rest_object))
     = Some (multiplyScalar (addVectors origin near_point) 0.5)"
    by (simp add: SkeletonLine_frame_def distance_near Let_def)
  have mid: "multiplyScalar (addVectors origin near_point) 0.5 = \<lparr>vx = 0, vy = 0.0025, vz = 0\<rparr>"
    by (simp add: multiplyScalar_def addVectors_def origin_def near_point_def)
  have far: "map_option scale (frameRef (CyberLimb_frame symbolic hip_centre shoulder_centre mounted_limb))
     = Some \<lparr>vx = 1, vy = 0.6, vz = 1\<rparr>"
    by (simp add: CyberLimb_frame_def d mounted_limb_def Let_def)
  have spine: "map_option scale (spineRef (update_spine symbolic
        (mounted_avatar\<lparr>shoulderMid := shoulder_centre, hipMid := hip_centre\<rparr>)))
     = Some \<lparr>vx = 1, vy = 0.54, vz = 1\<rparr>"
    "map_option scale (spineRef (update_spine symbolic
        (mounted_avatar\<lparr>shoulderMid := origin, hipMid := origin\<rparr>)))
     = Some \<lparr>vx = 1, vy = 0, vz = 1\<rparr>"
    by (simp_all add: update_spine_pose [OF r] distance_spine distanceTo_self)
  have rest: "map_option position (groupRef mounted_limb) = Some origin"
    "map_option scale (frameRef mounted_limb) = Some \<lparr>vx = 1, vy = 1, vz = 1\<rparr>"
    by (simp_all add: mounted_limb_def rest_object_def)
  show ?thesis
    unfolding limb line mid far spine rest by (simp add: origin_def)
qed

text \<open>
  C3, as amended. For end points at least 0.01 apart, a mounted limb and a debug line get
  the same position (the midpoint), the same look-at (from the midpoint to the end
  point) and the same scale along Y (the distance); the quarter turn about X is a further
  rotation of the line and the Euler X of the limb's inner frame. The spine, with the
  shoulder midpoint as its end point, gets the position and the orientation of a debug
  line, and 0.9 times the distance as its scale. The limb skips its update below 0.01,
  the debug line at or below 0.001.
\<close>

theorem stretch_routines:
  assumes "0.01 \<le> distanceTo a b"
    and "groupRef st = Some g" and "frameRef st = Some f" and "armorRef st = Some ar"
  shows "map_option position (groupRef (CyberLimb_frame T a b st))
           = Some (multiplyScalar (addVectors a b) 0.5)
       \<and> map_option quaternion (groupRef (CyberLimb_frame T a b st))
           = Some (lookAt T (multiplyScalar (addVectors a b) 0.5) b)
       \<and> map_option scale (frameRef (CyberLimb_frame T a b st))
           = Some \<lparr>vx = 1, vy = distanceTo a b, vz = 1\<rparr>
       \<and> map_option quaternion (frameRef (CyberLimb_frame T a b st))
           = Some (setRotationX T (quaternion f) (pi / 2))
       \<and> SkeletonLine_frame T a b (Some m)
           = Some (m\<lparr>position := multiplyScalar (addVectors a b) 0.5,
                     quaternion := rotateX T (lookAt T (multiplyScalar (addVectors a b) 0.5) b)
                       (pi / 2),
                     scale := \<lparr>vx = 1, vy = distanceTo a b, vz = 1\<rparr>\<rparr>)
       \<and> spineRef (update_spine T (av\<lparr>shoulderMid := b, hipMid := a, spineRef := Some m\<rparr>))
           = Some (m\<lparr>position := multiplyScalar (addVectors a b) 0.5,
                     quaternion := rotateX T (lookAt T (multiplyScalar (addVectors a b) 0.5) b)
                       (pi / 2),
                     scale := \<lparr>vx = 1, vy = distanceTo a b * 0.9, vz = 1\<rparr>\<rparr>)
       \<and> (distanceTo c d < 0.01 \<longrightarrow> CyberLimb_frame T c d st = st)
       \<and> (distanceTo c d \<le> 0.001 \<longrightarrow> SkeletonLine_frame T c d (Some m) = Some m)"
proof -
  have skip: "distanceTo c d < 0.01 \<longrightarrow> CyberLimb_frame T c d st = st"
    "distanceTo c d \<le> 0.001 \<longrightarrow> SkeletonLine_frame T c d (Some m) = Some m"
    using assms(2-4) by (simp_all add: CyberLimb_frame_def SkeletonLine_frame_def Let_def)
  have limb: "map_option position (groupRef (CyberLimb_frame T a b st))
           = Some (multiplyScalar (addVectors a b) 0.5)"
    "map_option quaternion (groupRef (CyberLimb_frame T a b st))
           = Some (lookAt T (multiplyScalar (addVectors a b) 0.5) b)"
    "map_option scale (frameRef (CyberLimb_frame T a b st))
           = Some \<lparr>vx = 1, vy = distanceTo a b, vz = 1\<rparr>"
    "map_option quaternion (frameRef (CyberLimb_frame T a b st))
           = Some (setRotationX T (quaternion f) (pi / 2))"
    using assms by (simp_all add: CyberLimb_frame_def Let_def)
  have line: "SkeletonLine_frame T a b (Some m)
           = Some (m\<lparr>position := multiplyScalar (addVectors a b) 0.5,
                     quaternion := rotateX T (lookAt T (multiplyScalar (addVectors a b) 0.5) b)
                       (pi / 2),
                     scale := \<lparr>vx = 1, vy = distanceTo a b, vz = 1\<rparr>\<rparr>)"
    using assms(1) by (simp add: SkeletonLine_frame_def Let_def)
  have spine: "spineRef (update_spine T (av\<lparr>shoulderMid := b, hipMid := a, spineRef := Some m\<rparr>))
           = Some (m\<lparr>position := multiplyScalar (addVectors a b) 0.5,
                     quaternion := rotateX T (lookAt T (multiplyScalar (addVectors a b) 0.5) b)
                       (pi / 2),
                     scale := \<lparr>vx = 1, vy = distanceTo a b * 0.9, vz = 1\<rparr>\<rparr>)"
    by (simp add: update_spine_def Let_def midpoint_commute [of b a]
        distanceTo_commute [of b a])
  show ?thesis using limb line spine skip by simp
qed

theorem stretch_routines_witness:
  "0.01 \<le> distanceTo hip_centre shoulder_centre
   \<and> map_option position (groupRef (CyberLimb_frame symbolic hip_centre shoulder_centre mounted_limb))
       = Some \<lparr>vx = 0, vy = 1.2, vz = 0\<rparr>
   \<and> map_option position (SkeletonLine_frame symbolic hip_centre shoulder_centre (Some rest_object))
       = Some \<lparr>vx = 0, vy = 1.2, vz = 0\<rparr>
   \<and> map_option scale (SkeletonLine_frame symbolic hip_centre shoulder_centre (Some rest_object))
       = Some \<lparr>vx = 1, vy = 0.6, vz = 1\<rparr>
   \<and> map_option scale (frameRef (CyberLimb_frame symbolic hip_centre shoulder_centre mounted_limb))
       = Some \<lparr>vx = 1, vy = 0.6, vz = 1\<rparr>
   \<and> map_option scale (spineRef (update_spine symbolic
         (mounted_avatar\<lparr>shoulderMid := shoulder_centre, hipMid := hip_centre,
            spineRef := Some rest_object\<rparr>)))
       = Some \<lparr>vx = 1, vy = 0.54, vz = 1\<rparr>
   \<and> distanceTo origin near_point < 0.01
   \<and> CyberLimb_frame symbolic origin near_point mounted_limb = mounted_limb
   \<and> distanceTo origin origin \<le> 0.001
   \<and> SkeletonLine_frame symbolic origin origin (Some rest_object) = Some rest_object"
proof -
  have d: "distanceTo hip_centre shoulder_centre = 0.6"
    by (simp add: distanceTo_commute [of hip_centre] distance_spine)
  then have a: "0.01 \<le> distanceTo hip_centre shoulder_centre" by simp
  have m: "multiplyScalar (addVectors hip_centre shoulder_centre) (1 / 2) = \<lparr>vx = 0, vy = 1.2, vz = 0\<rparr>"
    by (simp add: multiplyScalar_def addVectors_def hip_centre_def shoulder_centre_def)
  have g: "groupRef mounted_limb = Some rest_object" "frameRef mounted_limb = Some rest_object"
    "armorRef mounted_limb = Some rest_object"
    by (simp_all add: mounted_limb_def)
  show ?thesis
    using a
      stretch_routines [OF a g, of symbolic rest_object mounted_avatar origin near_point]
      stretch_routines [OF a g, of symbolic rest_object mounted_avatar origin origin]
    by (simp add: m d distance_near distanceTo_self)
qed

section \<open>Degenerate end points\<close>

text \<open>
  C5, as stated, fails: the skip below 0.01 is the limb's alone. For end points 0.005
  apart a debug line leaves its rest pose and moves to the midpoint; for identical end
  points the spine and a hand bone are posed all the same, with scale 0 along Y.
\<close>

theorem degenerate_update_counterexample:
  "distanceTo origin near_point < 0.01
   \<and> SkeletonLine_frame symbolic origin near_point (Some rest_object) \<noteq> Some rest_object
   \<and> map_option position (SkeletonLine_frame symbolic origin near_point (Some rest_object))
       = Some \<lparr>vx = 0, vy = 0.0025, vz = 0\<rparr>
   \<and> map_option scale (SkeletonLine_frame symbolic origin near_point (Some rest_object))
       = Some \<lparr>vx = 1, vy = 0.005, vz = 1\<rparr>
   \<and> distanceTo origin origin = 0
   \<and> scale rest_object = \<lparr>vx = 1, vy = 1, vz = 1\<rparr>
   \<and> map_option scale (spineRef (update_spine symbolic
         (mounted_avatar\<lparr>shoulderMid := origin, hipMid := origin\<rparr>)))
       = Some \<lparr>vx = 1, vy = 0, vz = 1\<rparr>
   \<and> scale (pose_bone symbolic origin origin rest_object) = \<lparr>vx = 1, vy = 0, vz = 1\<rparr>"
proof -
  have near: "distanceTo origin near_point < 0.01"
    by (simp add: distance_near)
  have line: "SkeletonLine_frame symbolic origin near_point (Some rest_object)
     = Some (rest_object
         \<lparr>position := multiplyScalar (addVectors origin near_point) (1 / 2),
            quaternion := rotateX symbolic
              (lookAt symbolic (multiplyScalar (addVectors origin near_point) (1 / 2)) near_point)
              (pi / 2),
            scale := \<lparr>vx = 1, vy = 0.005, vz = 1\<rparr>\<rparr>)"
    by (simp add: SkeletonLine_frame_def distance_near Let_def)
  have mid: "multiplyScalar (addVectors origin near_point) (1 / 2) = \<lparr>vx = 0, vy = 0.0025, vz = 0\<rparr>"
    by (simp add: multiplyScalar_def addVectors_def origin_def near_point_def)
  have moved: "SkeletonLine_frame symbolic origin near_point (Some rest_object) \<noteq> Some rest_object"
  proof
    assume "SkeletonLine_frame symbolic origin near_point (Some rest_object) = Some rest_object"
    then have "map_option scale (SkeletonLine_frame symbolic origin near_point (Some rest_object))
        = Some (scale rest_object)"
      by simp
    then show False
      unfolding line by (simp add: rest_object_def)
  qed
  have r: "spineRef (mounted_avatar\<lparr>shoulderMid := origin, hipMid := origin\<rparr>) = Some rest_object"
    by (simp add: mounted_avatar_def)
  have spine: "map_option scale (spineRef (update_spine symbolic
         (mounted_avatar\<lparr>shoulderMid := origin, hipMid := origin\<rparr>)))
       = Some \<lparr>vx = 1, vy = 0, vz = 1\<rparr>"
    by (simp add: update_spine_pose [OF r] distanceTo_self)
  have bone: "scale (pose_bone symbolic origin origin rest_object) = \<lparr>vx = 1, vy = 0, vz = 1\<rparr>"
    by (simp add: pose_bone_def distanceTo_self Let_def)
  have rest: "scale rest_object = \<lparr>vx = 1, vy = 1, vz = 1\<rparr>"
    by (simp add: rest_object_def)
  show ?thesis
    using near moved spine bone rest
    unfolding line by (simp add: mid distanceTo_self)
qed

text \<open>
  C5, as amended. When the two end points of a limb are closer than 0.01, and in
  particular when they are the same point, the limb's frame callback changes nothing: the
  group, the inner frame and the armour keep the pose they had, whatever it was. A debug
  line keeps its pose when its end points are at most 0.001 apart, and in particular when
  they are the same point.
\<close>

theorem degenerate_freeze:
  assumes "distanceTo a b < 0.01" and "distanceTo c d \<le> 0.001"
  shows "CyberLimb_frame T a b st = st \<and> CyberLimb_frame T p p st = st
       \<and> SkeletonLine_frame T c d ref = ref \<and> SkeletonLine_frame T p p ref = ref"
proof -
  have limb: "CyberLimb_frame T a b st = st" "CyberLimb_frame T p p st = st"
    using assms(1)
    by (auto simp: CyberLimb_frame_def distanceTo_self Let_def split: option.splits)
  have line: "SkeletonLine_frame T c d ref = ref" "SkeletonLine_frame T p p ref = ref"
    using assms(2)
    by (auto simp: SkeletonLine_frame_def distanceTo_self Let_def split: option.splits)
  show ?thesis using limb line by simp
qed

theorem degenerate_freeze_witness:
  "distanceTo origin near_point < 0.01
   \<and> distanceTo origin origin \<le> 0.001
   \<and> CyberLimb_frame symbolic origin near_point mounted_limb = mounted_limb
   \<and> CyberLimb_frame symbolic near_point near_point mounted_limb = mounted_limb
   \<and> SkeletonLine_frame symbolic origin origin (Some rest_object) = Some rest_object
   \<and> SkeletonLine_frame symbolic near_point near_point (Some rest_object) = Some rest_object"
proof -
  have a: "distanceTo origin near_point < 0.01" by (simp add: distance_near)
  have b: "distanceTo origin origin \<le> 0.001" by (simp add: distanceTo_self)
  show ?thesis
    using a b
      degenerate_freeze [OF a b, of symbolic mounted_limb near_point "Some rest_object"]
    by simp
qed

end
